theory Spec2Isabelle
  imports Complex_Main "HOL-Library.Multiset"
begin

section \<open>Values shared by the queries\<close>

text \<open>
  Python's \<open>str\<close> and the store's text columns are sequences of Unicode code points.
  Several literals of the source are not ASCII (the remainder label of the top-5 folding,
  the dash of the author-count label, the region pattern), so text is modelled as the list
  of its code points.
\<close>

type_synonym pystr = "nat list"

text \<open>The exceptions the modelled functions can raise.\<close>

datatype py_error =
    ZeroDivisionError
  | AttributeError
  | DBAPIError
  | InvalidRequestError

text \<open>
  \<open>OFFSET\<close> and \<open>LIMIT\<close> are bound as 64-bit integers: a value outside that range
  is refused when the statement is executed, and so is a negative one.
\<close>

definition offset_limit_ok :: "int \<Rightarrow> bool" where
  "offset_limit_ok n \<longleftrightarrow> 0 \<le> n \<and> n < 2 ^ 63"

section \<open>The entity store\<close>

text \<open>
  \<open>Person\<close> is the declarative model of \<open>app/models/person.py\<close>; every column
  but the primary key and the three \<open>nullable=False\<close> ones may hold NULL. Dates are day
  numbers. The field \<open>kind\<close> is named \<open>person_kind\<close> here, since the patent
  has a column of the same name.
\<close>

record person =
  person_kind :: int
  tax_number :: pystr
  full_name :: "pystr option"
  short_name :: "pystr option"
  legal_address :: "pystr option"
  fact_address :: "pystr option"
  person_reg_date :: "int option"
  active :: "bool option"
  category :: "pystr option"
  okopf :: "pystr option"
  okvad :: "pystr option"
  region :: "pystr option"
  ogrn :: pystr
  uk :: int
  support_type :: "pystr option"

text \<open>
  Modelled from the spec: the models \<open>Patent\<close>, \<open>Ownership\<close> and
  \<open>FilterTaxNumber\<close> (\<open>app/models/patent.py\<close>, \<open>ownership.py\<close>,
  \<open>filter.py\<close>) are not among the sources. A patent is identified by the composite key
  \<open>(kind, reg_number)\<close> and carries an in-force flag, a country code, a
  classification subcategory and an author count; the record holds the columns that the
  queries below read, under the names the queries use. An ownership row holds the two
  foreign references and nothing else. A filter row pairs a filter id with one tax
  number (column \<open>tax_number\<close>, named \<open>filter_tax\<close> here).
\<close>

record patent =
  kind :: int
  reg_number :: int
  name :: pystr
  owner_raw :: "pystr option"
  author_raw :: "pystr option"
  country_code :: "pystr option"
  subcategory :: "pystr option"
  actual :: bool
  author_count :: int

record ownership =
  patent_kind :: int
  patent_reg_number :: int
  person_tax_number :: pystr

record filter_tax_number =
  filter_id :: int
  filter_tax :: pystr

text \<open>
  The session's view of the database. A table is a bag of rows; the list order of a table
  is the order in which the engine delivers its rows to one execution of a statement,
  which SQL leaves open wherever no \<open>ORDER BY\<close> decides it.
\<close>

record store =
  patents :: "patent list"
  persons :: "person list"
  ownerships :: "ownership list"
  filter_tax_numbers :: "filter_tax_number list"

definition empty_store :: store where
  "empty_store = \<lparr>patents = [], persons = [], ownerships = [], filter_tax_numbers = []\<rparr>"


subsection \<open>Joins\<close>

text \<open>
  The join condition between \<open>Ownership\<close> and \<open>Patent\<close>, written out in the
  listings and inferred from the composite foreign key in \<open>.join(Ownership)\<close>.
\<close>

definition owns :: "ownership \<Rightarrow> patent \<Rightarrow> bool" where
  "owns ow p \<longleftrightarrow> patent_kind ow = kind p \<and> patent_reg_number ow = reg_number p"

text \<open>\<open>Patent.ownerships\<close>, as \<open>selectinload\<close> fills it.\<close>

definition ownerships_of :: "store \<Rightarrow> patent \<Rightarrow> ownership list" where
  "ownerships_of session p = [ow \<leftarrow> ownerships session. owns ow p]"

text \<open>\<open>Ownership.person\<close>: the person row with that primary key, or \<open>None\<close>.\<close>

definition person_of :: "store \<Rightarrow> ownership \<Rightarrow> person option" where
  "person_of session ow = find (\<lambda>q. tax_number q = person_tax_number ow) (persons session)"

text \<open>\<open>select_from(Patent).join(Ownership)\<close>: the inner join.\<close>

definition patent_join_ownership :: "patent list \<Rightarrow> store \<Rightarrow> (patent \<times> ownership) list" where
  "patent_join_ownership ps session =
     concat (map (\<lambda>p. map (\<lambda>ow. (p, ow)) (ownerships_of session p)) ps)"

text \<open>
  \<open>.join(FilterTaxNumber, Ownership.person_tax_number == FilterTaxNumber.tax_number)
  .filter_by(filter_id=filter_id)\<close>: one row for each filter row of that id with the
  owner's tax number.
\<close>

definition join_filter ::
  "store \<Rightarrow> int \<Rightarrow> (patent \<times> ownership) list \<Rightarrow> (patent \<times> ownership \<times> filter_tax_number) list" where
  "join_filter session fid rows =
     concat (map (\<lambda>(p, ow).
        map (\<lambda>f. (p, ow, f))
          [f \<leftarrow> filter_tax_numbers session. person_tax_number ow = filter_tax f \<and> filter_id f = fid])
       rows)"

text \<open>\<open>select_from(Patent).outerjoin(Ownership)\<close>: a patent without ownership keeps one row.\<close>

definition patent_outerjoin_ownership :: "store \<Rightarrow> (patent \<times> ownership option) list" where
  "patent_outerjoin_ownership session =
     concat (map (\<lambda>p.
        (case ownerships_of session p of
           [] \<Rightarrow> [(p, None)]
         | ows \<Rightarrow> map (\<lambda>ow. (p, Some ow)) ows))
       (patents session))"

text \<open>
  The second outer join of the listings,
  \<open>.outerjoin(Person, Person.tax_number == Ownership.person_tax_number)\<close>.
\<close>

definition outerjoin_person ::
  "store \<Rightarrow> (patent \<times> ownership option) list \<Rightarrow> (patent \<times> ownership option \<times> person option) list" where
  "outerjoin_person session rows =
     concat (map (\<lambda>(p, ow_opt).
        (case ow_opt of
           None \<Rightarrow> [(p, None, None)]
         | Some ow \<Rightarrow>
             (case [q \<leftarrow> persons session. tax_number q = person_tax_number ow] of
                [] \<Rightarrow> [(p, Some ow, None)]
              | qs \<Rightarrow> map (\<lambda>q. (p, Some ow, Some q)) qs)))
       rows)"

text \<open>
  \<open>.group_by(Patent.kind, Patent.reg_number)\<close> under \<open>select(Patent)\<close>: one row for
  each key among the joined rows, in the order of the key's first row.
\<close>

function group_by_key :: "(patent \<times> 'a) list \<Rightarrow> patent list" where
  "group_by_key [] = []"
| "group_by_key (r # rows) =
     fst r # group_by_key
       [r' \<leftarrow> rows. \<not> (kind (fst r') = kind (fst r) \<and> reg_number (fst r') = reg_number (fst r))]"
  by pat_completeness auto
termination
  by (relation "measure length") (auto simp: less_Suc_eq_le)

section \<open>Patent listings (\<open>app/crud/patent.py\<close>)\<close>

record patent_holder =
  holder_tax_number :: pystr
  holder_full_name :: "pystr option"

text \<open>An item is the patent's own fields merged with the key \<open>patent_holders\<close>.\<close>

record patent_item =
  item_patent :: patent
  patent_holders :: "patent_holder list"

record patent_list_response =
  total_of :: int
  items :: "patent_item list"

text \<open>
  The comprehension over \<open>patent[0].ownerships\<close>. Reading \<open>ownership.person.tax_number\<close>
  of an ownership whose person row is absent raises \<open>AttributeError\<close>.
\<close>

fun holders :: "store \<Rightarrow> ownership list \<Rightarrow> py_error + patent_holder list" where
  "holders session [] = Inr []"
| "holders session (ow # ows) =
     (case person_of session ow of
        None \<Rightarrow> Inl AttributeError
      | Some q \<Rightarrow>
          (case holders session ows of
             Inl e \<Rightarrow> Inl e
           | Inr hs \<Rightarrow>
               Inr (\<lparr>holder_tax_number = tax_number q, holder_full_name = full_name q\<rparr> # hs)))"

text \<open>The loop \<open>for patent in patents\<close> that builds \<open>patents_list\<close>.\<close>

fun build_items :: "store \<Rightarrow> patent list \<Rightarrow> py_error + patent_item list" where
  "build_items session [] = Inr []"
| "build_items session (p # ps) =
     (case holders session (ownerships_of session p) of
        Inl e \<Rightarrow> Inl e
      | Inr hs \<Rightarrow>
          (case build_items session ps of
             Inl e \<Rightarrow> Inl e
           | Inr its \<Rightarrow> Inr (\<lparr>item_patent = p, patent_holders = hs\<rparr> # its)))"






text \<open>
  The statement of \<open>CRUDPatent.get_patents_list\<close>, executed. It filters on \<open>kind\<close>
  and \<open>actual\<close> when they are given, groups by the patent key, orders by
  \<open>Patent.actual.desc()\<close> and nothing else (rows with the same flag stay in the order
  the engine delivered them, which \<open>sort_key\<close> keeps), and cuts the window.
\<close>

definition list_stmt :: "store \<Rightarrow> nat \<Rightarrow> nat \<Rightarrow> int option \<Rightarrow> bool option \<Rightarrow> patent list" where
  "list_stmt session skip pagesize kind_arg actual_arg =
     (let joined = outerjoin_person session (patent_outerjoin_ownership session);
          filtered = [r \<leftarrow> joined.
                        (case kind_arg of None \<Rightarrow> True | Some k \<Rightarrow> kind (fst r) = k) \<and>
                        (case actual_arg of None \<Rightarrow> True | Some a \<Rightarrow> actual (fst r) = a)];
          ordered = sort_key (\<lambda>p. \<not> actual p) (group_by_key filtered)
      in take pagesize (drop skip ordered))"

text \<open>
  \<open>CRUDPatent.get_patents_list\<close>. Executing the statement raises when \<open>skip\<close> or
  \<open>pagesize\<close> is negative or does not fit 64 bits. The total is
  \<open>select(func.count()).select_from(Patent)\<close>.
\<close>

definition get_patents_list ::
  "store \<Rightarrow> int \<Rightarrow> int \<Rightarrow> int option \<Rightarrow> bool option \<Rightarrow> py_error + patent_list_response" where
  "get_patents_list session page pagesize kind_arg actual_arg =
     (let skip = (page - 1) * pagesize in
      if offset_limit_ok skip \<and> offset_limit_ok pagesize
      then
        case build_items session
               (list_stmt session (nat skip) (nat pagesize) kind_arg actual_arg) of
          Inl e \<Rightarrow> Inl e
        | Inr patents_list \<Rightarrow>
            Inr \<lparr>total_of = int (length (patents session)), items = patents_list\<rparr>
      else Inl DBAPIError)"

text \<open>
  The three statements of \<open>CRUDPatent.get_patents_list_with_filter\<close>. The tax numbers
  of the filter are read first. The listing statement keeps the joined rows whose person
  has one of them, groups by the patent key and cuts the window, with no \<open>ORDER BY\<close>.
  The count statement counts the rows of \<open>Patent\<close> outer-joined to \<open>Ownership\<close>
  whose owner's tax number is in the list.
\<close>

definition tax_numbers_stmt :: "store \<Rightarrow> int \<Rightarrow> pystr list" where
  "tax_numbers_stmt session fid =
     map filter_tax [f \<leftarrow> filter_tax_numbers session. filter_id f = fid]"

definition filter_list_stmt :: "store \<Rightarrow> nat \<Rightarrow> nat \<Rightarrow> pystr list \<Rightarrow> patent list" where
  "filter_list_stmt session skip pagesize tax_numbers =
     (let joined = outerjoin_person session (patent_outerjoin_ownership session);
          filtered = [r \<leftarrow> joined.
                        (case snd (snd r) of
                           None \<Rightarrow> False
                         | Some q \<Rightarrow> tax_number q \<in> set tax_numbers)]
      in take pagesize (drop skip (group_by_key filtered)))"

definition filter_total_stmt :: "store \<Rightarrow> pystr list \<Rightarrow> int" where
  "filter_total_stmt session tax_numbers =
     int (length
       [r \<leftarrow> patent_outerjoin_ownership session.
          (case snd r of
             None \<Rightarrow> False
           | Some ow \<Rightarrow> person_tax_number ow \<in> set tax_numbers)])"

definition get_patents_list_with_filter ::
  "store \<Rightarrow> int \<Rightarrow> int \<Rightarrow> int \<Rightarrow> py_error + patent_list_response" where
  "get_patents_list_with_filter session page pagesize fid =
     (let skip = (page - 1) * pagesize;
          tax_numbers = tax_numbers_stmt session fid
      in
      if offset_limit_ok skip \<and> offset_limit_ok pagesize
      then
        case build_items session
               (filter_list_stmt session (nat skip) (nat pagesize) tax_numbers) of
          Inl e \<Rightarrow> Inl e
        | Inr patents_list \<Rightarrow>
            Inr \<lparr>total_of = filter_total_stmt session tax_numbers, items = patents_list\<rparr>
      else Inl DBAPIError)"

section \<open>Top-5 folding (\<open>get_top_5_and_others\<close> in \<open>app/crud/person.py\<close>)\<close>

text \<open>
  The helper executes a grouped count query and folds its rows. The rows
  \<open>all_data\<close> are pairs of a nullable label and a count; the result is a list of
  dictionaries with the keys \<open>name\<close> and \<open>count\<close>.
\<close>

record stats_item =
  item_name :: "pystr option"
  item_count :: int

text \<open>The literal of the remainder entry (Cyrillic, nine code points).\<close>

definition others_name :: pystr where
  "others_name = [0x41E, 0x441, 0x442, 0x430, 0x43B, 0x44C, 0x43D, 0x44B, 0x435]"

definition get_top_5_and_others :: "(pystr option \<times> int) list \<Rightarrow> stats_item list" where
  "get_top_5_and_others all_data =
     (if all_data = [] then []
      else
        let top_5 = take 5 all_data;
            others_sum = sum_list (map snd (drop 5 all_data));
            result_list = map (\<lambda>(name, count). \<lparr>item_name = name, item_count = count\<rparr>) top_5
        in if others_sum > 0
           then result_list @ [\<lparr>item_name = Some others_name, item_count = others_sum\<rparr>]
           else result_list)"

section \<open>Patent statistics (\<open>CRUDPatent.get_stats\<close>)\<close>

text \<open>A grouped count read into a dictionary: a key is present when its group has a row.\<close>

definition grouped_count :: "('r \<Rightarrow> 'k) \<Rightarrow> 'r list \<Rightarrow> ('k \<rightharpoonup> int)" where
  "grouped_count key rows =
     (\<lambda>k. let n = length [r \<leftarrow> rows. key r = k] in if n = 0 then None else Some (int n))"

text \<open>
  \<open>int(round(a / b))\<close> on integers: true division raises on a zero divisor, and
  \<open>round\<close> takes the nearest integer, a tie going to the even one. The quotient is taken
  exactly here; the code rounds the binary float nearest to it, which lies on the same side
  of every tie for counts of the size a table can have.
\<close>

definition round_half_even :: "int \<Rightarrow> int \<Rightarrow> int" where
  "round_half_even a b =
     (let n = (if b < 0 then - a else a);
          d = \<bar>b\<bar>;
          q = n div d;
          r = n mod d
      in if 2 * r < d then q
         else if d < 2 * r then q + 1
         else if even q then q else q + 1)"

definition int_round_div :: "int \<Rightarrow> int \<Rightarrow> py_error + int" where
  "int_round_div a b = (if b = 0 then Inl ZeroDivisionError else Inr (round_half_even a b))"

text \<open>The literals of the statement: the country code and the four bucket labels
  (the third one has an en dash, U+2013).\<close>

definition RU :: pystr where
  "RU = [0x52, 0x55]"

definition label_0 :: pystr where
  "label_0 = [0x30]"

definition label_1 :: pystr where
  "label_1 = [0x31]"

definition label_2_5 :: pystr where
  "label_2_5 = [0x32, 0x2013, 0x35]"

definition label_5_plus :: pystr where
  "label_5_plus = [0x35, 0x2B]"

text \<open>The \<open>case\<close> expression labelled \<open>author_count_group\<close>; the first true branch wins.\<close>

definition author_count_group :: "int \<Rightarrow> pystr" where
  "author_count_group n =
     (if n = 0 then label_0
      else if n = 1 then label_1
      else if n \<le> 5 then label_2_5
      else label_5_plus)"

record patent_stats_response =
  total_patents :: int
  total_ru_patents :: int
  total_with_holders :: int
  total_ru_with_holders :: int
  with_holders_percent :: int
  ru_with_holders_percent :: int
  by_author_count :: "pystr \<rightharpoonup> int"
  by_patent_kind :: "int \<rightharpoonup> int"

text \<open>
  The rows that \<open>select_from(Patent)\<close> yields once the filter joins are added:
  the patents themselves without a filter, one row for each (patent, ownership, filter
  row) triple with one. Only the patent's columns are read afterwards.
\<close>

definition patents_under_filter :: "store \<Rightarrow> int option \<Rightarrow> patent list \<Rightarrow> patent list" where
  "patents_under_filter session filter_arg ps =
     (case filter_arg of
        None \<Rightarrow> ps
      | Some fid \<Rightarrow> map fst (join_filter session fid (patent_join_ownership ps session)))"

text \<open>
  The rows of \<open>select_from(Patent).join(Ownership)\<close>, joined to the filter when one is
  given; \<open>count(distinct(kind, reg_number))\<close> counts their distinct keys.
\<close>

definition holders_under_filter :: "store \<Rightarrow> int option \<Rightarrow> patent list \<Rightarrow> patent list" where
  "holders_under_filter session filter_arg ps =
     (case filter_arg of
        None \<Rightarrow> map fst (patent_join_ownership ps session)
      | Some fid \<Rightarrow> map fst (join_filter session fid (patent_join_ownership ps session)))"

definition count_distinct_keys :: "patent list \<Rightarrow> int" where
  "count_distinct_keys ps = int (length (remdups (map (\<lambda>p. (kind p, reg_number p)) ps)))"

definition ru_patents :: "store \<Rightarrow> patent list" where
  "ru_patents session = [p \<leftarrow> patents session. country_code p = Some RU]"

text \<open>
  The function runs its statements in order; the two percentages are computed after the
  four totals and before the grouped counts, so a failing division ends the call there.
\<close>

definition get_stats :: "store \<Rightarrow> int option \<Rightarrow> py_error + patent_stats_response" where
  "get_stats session filter_arg =
     (let t_patents = int (length (patents_under_filter session filter_arg (patents session)));
          t_ru_patents = int (length (patents_under_filter session filter_arg (ru_patents session)));
          t_with_holders = count_distinct_keys (holders_under_filter session filter_arg (patents session));
          t_ru_with_holders = count_distinct_keys (holders_under_filter session filter_arg (ru_patents session))
      in case int_round_div (100 * t_with_holders) t_patents of
           Inl e \<Rightarrow> Inl e
         | Inr percent \<Rightarrow>
             (case int_round_div (100 * t_ru_with_holders) t_ru_patents of
                Inl e \<Rightarrow> Inl e
              | Inr ru_percent \<Rightarrow>
                  Inr \<lparr>total_patents = t_patents,
                       total_ru_patents = t_ru_patents,
                       total_with_holders = t_with_holders,
                       total_ru_with_holders = t_ru_with_holders,
                       with_holders_percent = percent,
                       ru_with_holders_percent = ru_percent,
                       by_author_count =
                         grouped_count (\<lambda>p. author_count_group (author_count p))
                           (patents_under_filter session filter_arg (patents session)),
                       by_patent_kind =
                         grouped_count kind
                           (patents_under_filter session filter_arg (patents session))\<rparr>))"

section \<open>Moscow person statistics (\<open>CRUDPerson.get_msk_stats\<close>)\<close>

text \<open>
  \<open>Person.region.ilike('%...%')\<close> with the Russian name of Moscow between the two
  wildcards: the region contains the pattern, letter case set aside. A NULL region does
  not match. Case folding covers the Latin and the Cyrillic capitals.
\<close>

definition moskva :: pystr where
  "moskva = [0x43C, 0x43E, 0x441, 0x43A, 0x432, 0x430]"

definition lower_cp :: "nat \<Rightarrow> nat" where
  "lower_cp c =
     (if (0x41 \<le> c \<and> c \<le> 0x5A) \<or> (0x410 \<le> c \<and> c \<le> 0x42F) then c + 0x20
      else if 0x400 \<le> c \<and> c \<le> 0x40F then c + 0x50
      else c)"

fun starts_with :: "'a list \<Rightarrow> 'a list \<Rightarrow> bool" where
  "starts_with [] ys = True"
| "starts_with (x # xs) [] = False"
| "starts_with (x # xs) (y # ys) = (x = y \<and> starts_with xs ys)"

fun contains :: "'a list \<Rightarrow> 'a list \<Rightarrow> bool" where
  "contains pat [] = (pat = [])"
| "contains pat (y # ys) = (starts_with pat (y # ys) \<or> contains pat ys)"

definition in_moscow :: "person \<Rightarrow> bool" where
  "in_moscow q =
     (case region q of
        None \<Rightarrow> False
      | Some r \<Rightarrow> contains (map lower_cp moskva) (map lower_cp r))"

text \<open>
  \<open>.join(FilterTaxNumber, Person.tax_number == FilterTaxNumber.tax_number)
  .filter_by(filter_id=filter_id)\<close> on a statement over \<open>Person\<close>.
\<close>

definition persons_under_filter :: "store \<Rightarrow> int option \<Rightarrow> person list \<Rightarrow> person list" where
  "persons_under_filter session filter_arg qs =
     (case filter_arg of
        None \<Rightarrow> qs
      | Some fid \<Rightarrow>
          concat (map (\<lambda>q.
             map (\<lambda>f. q)
               [f \<leftarrow> filter_tax_numbers session. tax_number q = filter_tax f \<and> filter_id f = fid])
            qs))"

text \<open>
  The two percentages are floats. A float is modelled by the rational number it stands for;
  \<open>to_float\<close> takes a rational to the nearest binary64 value, a tie going to the even
  significand (53 bits, gradual underflow below \<open>2 ^ -1022\<close>). Overflow does not occur:
  the values here are quotients of two row counts, times 100.
\<close>

function bit_length :: "int \<Rightarrow> nat" where
  "bit_length n = (if n \<le> 0 then 0 else Suc (bit_length (n div 2)))"
  by pat_completeness auto
termination
  by (relation "measure nat") auto

definition pow2 :: "int \<Rightarrow> rat" where
  "pow2 e = (if 0 \<le> e then 2 ^ nat e else 1 / 2 ^ nat (- e))"

definition round_half_even_rat :: "rat \<Rightarrow> int" where
  "round_half_even_rat x = (let (n, d) = quotient_of x in round_half_even n d)"

definition to_float_pos :: "rat \<Rightarrow> rat" where
  "to_float_pos x =
     (let (n, d) = quotient_of x;
          k = int (bit_length n) - int (bit_length d);
          e = (if pow2 k \<le> x then k else k - 1);
          ulp = pow2 (max e (- 1022) - 52)
      in of_int (round_half_even_rat (x / ulp)) * ulp)"

definition to_float :: "rat \<Rightarrow> rat" where
  "to_float x =
     (if x = 0 then 0
      else if x < 0 then - to_float_pos (- x)
      else to_float_pos x)"

text \<open>
  \<open>c / t\<close> on two integers is the float nearest to the quotient, and the product with
  100 is rounded again. \<open>round(x, 2)\<close> takes the exact value of the float \<open>x\<close> to two
  decimals, a tie going to the even digit, and returns the float nearest to that decimal.
\<close>

definition round_2 :: "rat \<Rightarrow> rat" where
  "round_2 x = to_float (of_int (round_half_even_rat (x * 100)) / 100)"

definition percent_2 :: "int \<Rightarrow> int \<Rightarrow> rat" where
  "percent_2 c t = round_2 (to_float (to_float (of_int c / of_int t) * 100))"

record msk_stats =
  total_persons :: int
  by_kind :: "int \<rightharpoonup> int"
  by_category :: "pystr option \<rightharpoonup> int"
  moscow_cluster_percentage :: rat
  moscow_support_type_percentage :: rat

text \<open>
  The first statement is \<open>select(func.count()).filter(...)\<close> without
  \<open>select_from(Person)\<close>: when a filter id is given, its \<open>.join(FilterTaxNumber, ...)\<close>
  has no left side to join from and the call raises \<open>InvalidRequestError\<close> at this
  first statement. Without a filter id no join is added. The later statements are written as
  in the code: the cluster statement carries the filter join, the support-type statement
  is built without it; the cluster percentage is computed under
  \<open>if cluster_count and total_count > 0\<close>, the support-type percentage by a plain
  division.
\<close>

definition get_msk_stats :: "store \<Rightarrow> int option \<Rightarrow> py_error + msk_stats" where
  "get_msk_stats session filter_arg =
     (if filter_arg \<noteq> None then Inl InvalidRequestError
      else
        let msk = [q \<leftarrow> persons session. in_moscow q];
            selected = persons_under_filter session filter_arg msk;
            cluster_count = int (length [q \<leftarrow> selected. uk q = 1]);
            cluster_total = int (length selected);
            cluster_percentage =
              (if cluster_count \<noteq> 0 \<and> cluster_total > 0
               then percent_2 cluster_count cluster_total else 0);
            count = int (length [q \<leftarrow> msk. support_type q \<noteq> None]);
            total_count = int (length msk)
        in if total_count = 0 then Inl ZeroDivisionError
           else Inr \<lparr>total_persons = cluster_total,
                     by_kind = grouped_count person_kind selected,
                     by_category = grouped_count category selected,
                     moscow_cluster_percentage = cluster_percentage,
                     moscow_support_type_percentage = percent_2 count total_count\<rparr>)"

section \<open>Writes to the store\<close>

text \<open>
  Modelled from the spec: \<open>CRUDBase\<close> (\<open>create_object\<close>, \<open>update_object\<close>,
  \<open>delete_object\<close> in \<open>app/crud/crud_base.py\<close>) and the validators that look an
  entity up before a delete are not among the sources. The spec gives a typed upsert
  for patents and persons, an ownership that references an existing patent and an existing
  person at write time, and deletes that remove the dependent ownership rows together
  with the parent (the \<open>cascade="all, delete-orphan"\<close> of \<open>Person.ownerships\<close>).
\<close>

datatype store_error = ForeignKeyViolation

text \<open>Modelled from the spec: the upsert of a patent (\<open>create_object\<close> and
  \<open>update_object\<close> of the absent \<open>CRUDBase\<close>), keyed by \<open>(kind, reg_number)\<close>.\<close>

definition upsert_patent :: "patent \<Rightarrow> store \<Rightarrow> store" where
  "upsert_patent p session =
     session\<lparr>patents :=
       [p' \<leftarrow> patents session. \<not> (kind p' = kind p \<and> reg_number p' = reg_number p)] @ [p]\<rparr>"

text \<open>Modelled from the spec: the upsert of a person, keyed by the tax number.\<close>

definition upsert_person :: "person \<Rightarrow> store \<Rightarrow> store" where
  "upsert_person q session =
     session\<lparr>persons := [q' \<leftarrow> persons session. tax_number q' \<noteq> tax_number q] @ [q]\<rparr>"

text \<open>Modelled from the spec: the write of an ownership row, which must reference an
  existing patent and an existing person (the absent \<open>Ownership\<close> model's foreign keys).\<close>

definition add_ownership :: "ownership \<Rightarrow> store \<Rightarrow> store_error + store" where
  "add_ownership ow session =
     (if (\<exists>p \<in> set (patents session). owns ow p) \<and>
         (\<exists>q \<in> set (persons session). tax_number q = person_tax_number ow)
      then Inr (session\<lparr>ownerships := ownerships session @ [ow]\<rparr>)
      else Inl ForeignKeyViolation)"

text \<open>Modelled from the spec: \<open>delete_object\<close> of the absent \<open>CRUDBase\<close> on a person;
  the ownership rows of the person go with it.\<close>

definition delete_person :: "pystr \<Rightarrow> store \<Rightarrow> store" where
  "delete_person tn session =
     session\<lparr>persons := [q \<leftarrow> persons session. tax_number q \<noteq> tn],
             ownerships := [ow \<leftarrow> ownerships session. person_tax_number ow \<noteq> tn]\<rparr>"

text \<open>Modelled from the spec: \<open>delete_object\<close> of the absent \<open>CRUDBase\<close> on a patent,
  found by its composite key; the ownership rows of the patent go with it.\<close>

definition delete_patent :: "int \<Rightarrow> int \<Rightarrow> store \<Rightarrow> store" where
  "delete_patent k r session =
     session\<lparr>patents := [p \<leftarrow> patents session. \<not> (kind p = k \<and> reg_number p = r)],
             ownerships :=
               [ow \<leftarrow> ownerships session. \<not> (patent_kind ow = k \<and> patent_reg_number ow = r)]\<rparr>"

datatype store_op =
    UpsertPatent patent
  | UpsertPerson person
  | AddOwnership ownership
  | DeletePerson pystr
  | DeletePatent int int

text \<open>One request; a rejected write leaves the store as it was.\<close>

fun apply_op :: "store_op \<Rightarrow> store \<Rightarrow> store" where
  "apply_op (UpsertPatent p) session = upsert_patent p session"
| "apply_op (UpsertPerson q) session = upsert_person q session"
| "apply_op (AddOwnership ow) session =
     (case add_ownership ow session of Inl e \<Rightarrow> session | Inr session' \<Rightarrow> session')"
| "apply_op (DeletePerson tn) session = delete_person tn session"
| "apply_op (DeletePatent k r) session = delete_patent k r session"

text \<open>The store after a sequence of requests, the first one applied first.\<close>

fun run_ops :: "store_op list \<Rightarrow> store \<Rightarrow> store" where
  "run_ops [] session = session"
| "run_ops (x # xs) session = run_ops xs (apply_op x session)"

text \<open>No ownership dangles: each one references a patent and a person of the store.\<close>

definition no_dangling :: "store \<Rightarrow> bool" where
  "no_dangling session \<longleftrightarrow>
     (\<forall>ow \<in> set (ownerships session).
        (\<exists>p \<in> set (patents session). owns ow p) \<and>
        (\<exists>q \<in> set (persons session). tax_number q = person_tax_number ow))"

section \<open>Concrete stores\<close>

text \<open>Rows with the columns that matter filled in, for the concrete cases below.\<close>

definition example_patent :: "int \<Rightarrow> int \<Rightarrow> bool \<Rightarrow> pystr option \<Rightarrow> int \<Rightarrow> patent" where
  "example_patent k r a c n =
     \<lparr>kind = k, reg_number = r, name = [], owner_raw = None, author_raw = None,
      country_code = c, subcategory = None, actual = a, author_count = n\<rparr>"

definition example_person :: "pystr \<Rightarrow> person" where
  "example_person t =
     \<lparr>person_kind = 1, tax_number = t, full_name = None, short_name = None,
      legal_address = None, fact_address = None, person_reg_date = None, active = Some True,
      category = None, okopf = None, okvad = None, region = None, ogrn = t, uk = 0,
      support_type = None\<rparr>"

definition example_ownership :: "int \<Rightarrow> int \<Rightarrow> pystr \<Rightarrow> ownership" where
  "example_ownership k r t = \<lparr>patent_kind = k, patent_reg_number = r, person_tax_number = t\<rparr>"

text \<open>
  The end-to-end scenario of the spec: P1 (RU, two authors, one owner), P2 (RU, no author,
  no owner), P3 (not RU, six authors, one owner). P1 and P2 are inventions in force, P3 is
  a utility model not in force.
\<close>

definition scenario_store :: store where
  "scenario_store =
     \<lparr>patents = [example_patent 1 1 True (Some RU) 2,
                 example_patent 1 2 True (Some RU) 0,
                 example_patent 2 3 False None 6],
      persons = [example_person [0x37]],
      ownerships = [example_ownership 1 1 [0x37], example_ownership 2 3 [0x37]],
      filter_tax_numbers = []\<rparr>"


text \<open>One RU patent with two owners, both in filter 4.\<close>

definition two_owner_store :: store where
  "two_owner_store =
     \<lparr>patents = [example_patent 1 100 True (Some RU) 1],
      persons = [example_person [0x31], example_person [0x32]],
      ownerships = [example_ownership 1 100 [0x31], example_ownership 1 100 [0x32]],
      filter_tax_numbers = [\<lparr>filter_id = 4, filter_tax = [0x31]\<rparr>,
                            \<lparr>filter_id = 4, filter_tax = [0x32]\<rparr>]\<rparr>"




text \<open>The requests that build the patent, its two owners and the two ownerships.\<close>

definition two_owner_requests :: "store_op list" where
  "two_owner_requests =
     [UpsertPatent (example_patent 1 100 True (Some RU) 1),
      UpsertPerson (example_person [0x31]),
      UpsertPerson (example_person [0x32]),
      AddOwnership (example_ownership 1 100 [0x31]),
      AddOwnership (example_ownership 1 100 [0x32])]"

section \<open>Properties of the top-5 folding\<close>

lemma get_top_5_and_others_shape:
  "get_top_5_and_others xs =
     map (\<lambda>(name, count). \<lparr>item_name = name, item_count = count\<rparr>) (take 5 xs) @
     (if 5 < length xs \<and> 0 < sum_list (map snd (drop 5 xs))
      then [\<lparr>item_name = Some others_name, item_count = sum_list (map snd (drop 5 xs))\<rparr>]
      else [])"
  by (cases "xs = []") (auto simp: get_top_5_and_others_def Let_def)

lemma to_item_count:
  "item_count \<circ> (\<lambda>(name, count). \<lparr>item_name = name, item_count = count\<rparr>) = snd"
  by (auto simp: fun_eq_iff)

lemma sum_take_drop:
  "sum_list (map snd (take n xs)) + sum_list (map snd (drop n xs)) = sum_list (map snd (xs :: ('a \<times> int) list))"
proof -
  have "map snd xs = map snd (take n xs) @ map snd (drop n xs)"
    by (simp flip: map_append)
  then have "sum_list (map snd xs) = sum_list (map snd (take n xs) @ map snd (drop n xs))"
    by (rule arg_cong)
  then show ?thesis by (simp only: sum_list_append)
qed

text \<open>
  Claim C2. For an input sorted descending by count, the folding returns the first
  \<open>min n 5\<close> rows unchanged, followed by one remainder entry that carries the sum of the
  other counts, present exactly when there are more than five rows and that sum is
  positive; the output has \<open>min n 5\<close> entries plus one for the remainder entry, and the
  empty input gives the empty output. (The proof does not use the order of the input.)
\<close>

theorem top_5_shape:
  assumes "sorted_wrt (\<lambda>a b. snd b \<le> snd a) all_data"
  shows "get_top_5_and_others all_data =
           map (\<lambda>(name, count). \<lparr>item_name = name, item_count = count\<rparr>) (take 5 all_data) @
           (if 5 < length all_data \<and> 0 < sum_list (map snd (drop 5 all_data))
            then [\<lparr>item_name = Some others_name,
                   item_count = sum_list (map snd (drop 5 all_data))\<rparr>]
            else []) \<and>
         length (get_top_5_and_others all_data) =
           min (length all_data) 5 +
           (if 5 < length all_data \<and> 0 < sum_list (map snd (drop 5 all_data)) then 1 else 0) \<and>
         (all_data = [] \<longrightarrow> get_top_5_and_others all_data = [])"
proof -
  note shape = get_top_5_and_others_shape [of all_data]
  have len: "length (get_top_5_and_others all_data) =
           min (length all_data) 5 +
           (if 5 < length all_data \<and> 0 < sum_list (map snd (drop 5 all_data)) then 1 else 0)"
    by (subst shape) simp
  have emp: "all_data = [] \<longrightarrow> get_top_5_and_others all_data = []"
    by (simp add: get_top_5_and_others_def)
  from shape len emp show ?thesis by blast
qed

theorem top_5_shape_witness:
  "sorted_wrt (\<lambda>a b. snd b \<le> snd a)
     [(Some [0x41], 100), (Some [0x42], 80), (Some [0x43], 50), (Some [0x44], 20),
      (Some [0x45], 10), (Some [0x46], 5), (Some [0x47], 1 :: int)] \<and>
   get_top_5_and_others
     [(Some [0x41], 100), (Some [0x42], 80), (Some [0x43], 50), (Some [0x44], 20),
      (Some [0x45], 10), (Some [0x46], 5), (Some [0x47], 1)] =
     [\<lparr>item_name = Some [0x41], item_count = 100\<rparr>,
      \<lparr>item_name = Some [0x42], item_count = 80\<rparr>,
      \<lparr>item_name = Some [0x43], item_count = 50\<rparr>,
      \<lparr>item_name = Some [0x44], item_count = 20\<rparr>,
      \<lparr>item_name = Some [0x45], item_count = 10\<rparr>,
      \<lparr>item_name = Some others_name, item_count = 6\<rparr>]"
proof -
  have h: "sorted_wrt (\<lambda>a b. snd b \<le> snd a)
     [(Some [0x41], 100), (Some [0x42], 80), (Some [0x43], 50), (Some [0x44], 20),
      (Some [0x45], 10), (Some [0x46], 5), (Some [0x47::nat], 1 :: int)]"
    by simp
  show ?thesis using h top_5_shape [OF h] by simp
qed

text \<open>
  Claim C10. When no count is negative, the counts of the output entries, the remainder
  entry included, add up to the sum of all input counts.
\<close>

theorem top_5_sum:
  assumes "\<forall>(name, count) \<in> set all_data. 0 \<le> count"
  shows "sum_list (map item_count (get_top_5_and_others all_data)) = sum_list (map snd all_data)"
proof -
  have nonneg: "0 \<le> sum_list (map snd (drop 5 all_data))"
  proof (rule sum_list_nonneg)
    fix c assume "c \<in> set (map snd (drop 5 all_data))"
    then obtain r where "r \<in> set (drop 5 all_data)" and "c = snd r" by auto
    then have "r \<in> set all_data" by (meson in_set_dropD)
    with assms \<open>c = snd r\<close> show "0 \<le> c" by (cases r) auto
  qed
  have short: "\<not> 5 < length all_data \<Longrightarrow> sum_list (map snd (drop 5 all_data)) = 0"
    by simp
  show ?thesis
    using nonneg short sum_take_drop [of 5 all_data]
    by (subst get_top_5_and_others_shape) (auto simp: to_item_count)
qed

theorem top_5_sum_witness:
  "sum_list (map item_count (get_top_5_and_others
     [(Some [0x41], 100), (Some [0x42], 80), (Some [0x43], 50),
      (Some [0x44], 20), (Some [0x45], 10), (Some [0x46], 5), (Some [0x47], 1)])) = 266"
proof -
  have h: "\<forall>(name, count) \<in> set [(Some [0x41], 100), (Some [0x42], 80), (Some [0x43], 50),
      (Some [0x44], 20), (Some [0x45], 10), (Some [0x46], 5), (Some [0x47::nat], 1 :: int)]. 0 \<le> count"
    by simp
  show ?thesis using top_5_sum [OF h] by simp
qed

section \<open>Properties of the patent statistics\<close>

lemma labels_distinct: "distinct [label_0, label_1, label_2_5, label_5_plus]"
  by (simp add: label_0_def label_1_def label_2_5_def label_5_plus_def)

lemma get_stats_by_author_count:
  "get_stats session None = Inr r \<Longrightarrow>
   by_author_count r = grouped_count (\<lambda>p. author_count_group (author_count p)) (patents session)"
  by (auto simp: get_stats_def Let_def patents_under_filter_def split: sum.splits)

text \<open>
  Claim C6. The bucket of a patent is decided by its author count: 0 goes to the label
  "0", 1 to "1", 2 up to and including 5 to the label with the dash, and anything above 5
  to "5+". The four labels are different, so a patent is in one bucket only, and the
  \<open>by_author_count\<close> entry of a label in the unfiltered statistics is the number of
  patents of the store whose bucket is that label (no entry when there is none).
\<close>

theorem author_buckets:
  "(n = 0 \<longrightarrow> author_count_group n = label_0) \<and>
   (n = 1 \<longrightarrow> author_count_group n = label_1) \<and>
   (2 \<le> n \<and> n \<le> 5 \<longrightarrow> author_count_group n = label_2_5) \<and>
   (5 < n \<longrightarrow> author_count_group n = label_5_plus) \<and>
   distinct [label_0, label_1, label_2_5, label_5_plus] \<and>
   (get_stats session None = Inr r \<longrightarrow>
      by_author_count r l =
        (let c = length [p \<leftarrow> patents session. author_count_group (author_count p) = l]
         in if c = 0 then None else Some (int c)))"
  using labels_distinct get_stats_by_author_count [of session r]
  by (auto simp: author_count_group_def grouped_count_def Let_def)

theorem author_buckets_witness:
  "author_count_group 0 = label_0 \<and>
   author_count_group 1 = label_1 \<and>
   author_count_group 5 = label_2_5 \<and>
   author_count_group 6 = label_5_plus \<and>
   map_sum id (\<lambda>r. by_author_count r label_2_5) (get_stats scenario_store None) = Inr (Some 1)"
proof -
  have "\<exists>r. get_stats scenario_store None = Inr r"
    by (simp add: get_stats_def Let_def int_round_div_def patents_under_filter_def
          ru_patents_def scenario_store_def example_patent_def RU_def)
  then obtain r where r: "get_stats scenario_store None = Inr r" ..
  have bucket: "by_author_count r label_2_5 = Some 1" and five: "author_count_group 5 = label_2_5"
    using r author_buckets [of 5 scenario_store r label_2_5]
    by (simp_all add: scenario_store_def example_patent_def author_count_group_def
          label_0_def label_1_def label_2_5_def label_5_plus_def)
  have rest: "author_count_group 0 = label_0 \<and> author_count_group 1 = label_1 \<and>
              author_count_group 6 = label_5_plus"
    using author_buckets [of 0] author_buckets [of 1] author_buckets [of 6] by simp
  show ?thesis
    using r bucket five rest by simp
qed

text \<open>
  The divisions of \<open>get_stats\<close> are not guarded: whenever one of the two denominators
  is zero, the call raises.
\<close>

lemma get_stats_zero_denominator:
  assumes "patents_under_filter session filter_arg (patents session) = [] \<or>
           patents_under_filter session filter_arg (ru_patents session) = []"
  shows "get_stats session filter_arg = Inl ZeroDivisionError"
  using assms
  by (auto simp: get_stats_def Let_def int_round_div_def split: sum.splits)

text \<open>
  Claim C1 (fails on the code). On the empty store, where no patent is selected,
  \<open>get_stats\<close> raises \<open>ZeroDivisionError\<close> where the claim has both percentages 0.
\<close>

theorem get_stats_empty_store_raises:
  "get_stats empty_store None = Inl ZeroDivisionError"
  by (rule get_stats_zero_denominator) (simp add: patents_under_filter_def empty_store_def)

text \<open>
  Claim C4 (fails on the code). With a filter, \<open>total_patents\<close> counts the rows of the
  join, one for each owner of a patent in the filter: for one patent with two owners in
  filter 4 the filtered total is 2 and the unfiltered total is 1.
\<close>

theorem get_stats_filtered_total_exceeds:
  "map_sum id total_patents (get_stats two_owner_store (Some 4)) = Inr 2 \<and>
   map_sum id total_patents (get_stats two_owner_store None) = Inr 1"
  by code_simp

section \<open>Properties of the Moscow person statistics\<close>

lemma get_msk_stats_empty_subset:
  assumes "[q \<leftarrow> persons session. in_moscow q] = []"
  shows "get_msk_stats session None = Inl ZeroDivisionError"
  using assms by (simp add: get_msk_stats_def Let_def)

text \<open>With a filter id the call ends at the first statement.\<close>

lemma get_msk_stats_filter_raises:
  "get_msk_stats session (Some fid) = Inl InvalidRequestError"
  by (simp add: get_msk_stats_def)

lemma to_float_zero: "to_float 0 = 0"
  by (simp add: to_float_def)

lemma percent_2_zero: "percent_2 0 t = 0"
  by (simp add: percent_2_def round_2_def round_half_even_rat_def round_half_even_def
        to_float_zero)

text \<open>
  When the Moscow subset has a person, the call without a filter returns; without a
  cluster member and without a support-type label in the subset both percentages are 0.
\<close>

lemma get_msk_stats_zero_counts:
  assumes "[q \<leftarrow> persons session. in_moscow q] \<noteq> []"
    and "\<forall>q \<in> set (persons session). in_moscow q \<longrightarrow> uk q \<noteq> 1 \<and> support_type q = None"
  shows "\<exists>r. get_msk_stats session None = Inr r \<and>
              moscow_cluster_percentage r = 0 \<and> moscow_support_type_percentage r = 0"
proof -
  have "[q \<leftarrow> [q \<leftarrow> persons session. in_moscow q]. uk q = 1] = []"
    using assms(2) by (auto simp: filter_empty_conv)
  moreover have "[q \<leftarrow> [q \<leftarrow> persons session. in_moscow q]. support_type q \<noteq> None] = []"
    using assms(2) by (auto simp: filter_empty_conv)
  ultimately show ?thesis
    using assms(1)
    by (simp add: get_msk_stats_def Let_def persons_under_filter_def percent_2_zero)
qed

text \<open>
  Claim C5 (fails on the code). On a store without a person in Moscow, \<open>get_msk_stats\<close>
  raises \<open>ZeroDivisionError\<close> in the support-type division, where the claim has 0.
\<close>

theorem get_msk_stats_empty_store_raises:
  "get_msk_stats empty_store None = Inl ZeroDivisionError"
  by (rule get_msk_stats_empty_subset) (simp add: empty_store_def)

section \<open>Properties of the listings\<close>

text \<open>
  What the unfiltered listing does return: at most \<open>pagesize\<close> items, and as total the
  number of rows of the patent table, whatever the page and the two filters.
\<close>

lemma length_build_items:
  "build_items session ps = Inr its \<Longrightarrow> length its = length ps"
  by (induction ps arbitrary: its) (auto split: sum.splits)

lemma build_items_patents:
  "build_items session ps = Inr its \<Longrightarrow> map item_patent its = ps"
  by (induction ps arbitrary: its) (auto split: sum.splits)

lemma get_patents_list_Inr:
  assumes "get_patents_list session page pagesize kind_arg actual_arg = Inr r"
  shows "build_items session
           (list_stmt session (nat ((page - 1) * pagesize)) (nat pagesize) kind_arg actual_arg) =
           Inr (items r) \<and>
         total_of r = int (length (patents session))"
proof -
  let ?rows = "list_stmt session (nat ((page - 1) * pagesize)) (nat pagesize) kind_arg actual_arg"
  have ok: "offset_limit_ok ((page - 1) * pagesize) \<and> offset_limit_ok pagesize"
    using assms
    by (cases "offset_limit_ok ((page - 1) * pagesize) \<and> offset_limit_ok pagesize")
      (simp_all add: get_patents_list_def Let_def)
  show ?thesis
  proof (cases "build_items session ?rows")
    case (Inl e)
    with assms ok show ?thesis by (simp add: get_patents_list_def Let_def)
  next
    case (Inr its)
    with assms ok have "r = \<lparr>total_of = int (length (patents session)), items = its\<rparr>"
      by (simp add: get_patents_list_def Let_def)
    with Inr show ?thesis by simp
  qed
qed

lemma get_patents_list_with_filter_Inr:
  assumes "get_patents_list_with_filter session page pagesize fid = Inr r"
  shows "build_items session
           (filter_list_stmt session (nat ((page - 1) * pagesize)) (nat pagesize)
              (tax_numbers_stmt session fid)) = Inr (items r) \<and>
         total_of r = filter_total_stmt session (tax_numbers_stmt session fid)"
proof -
  let ?rows = "filter_list_stmt session (nat ((page - 1) * pagesize)) (nat pagesize)
              (tax_numbers_stmt session fid)"
  have ok: "offset_limit_ok ((page - 1) * pagesize) \<and> offset_limit_ok pagesize"
    using assms
    by (cases "offset_limit_ok ((page - 1) * pagesize) \<and> offset_limit_ok pagesize")
      (simp_all add: get_patents_list_with_filter_def Let_def)
  show ?thesis
  proof (cases "build_items session ?rows")
    case (Inl e)
    with assms ok show ?thesis by (simp add: get_patents_list_with_filter_def Let_def)
  next
    case (Inr its)
    with assms ok have
      "r = \<lparr>total_of = filter_total_stmt session (tax_numbers_stmt session fid), items = its\<rparr>"
      by (simp add: get_patents_list_with_filter_def Let_def)
    with Inr show ?thesis by simp
  qed
qed

lemma get_patents_list_window:
  assumes "get_patents_list session page pagesize kind_arg actual_arg = Inr r"
  shows "length (items r) \<le> nat pagesize \<and> total_of r = int (length (patents session))"
proof -
  from get_patents_list_Inr [OF assms] length_build_items
  have "length (items r) =
          length (list_stmt session (nat ((page - 1) * pagesize)) (nat pagesize) kind_arg actual_arg)"
    and "total_of r = int (length (patents session))"
    by blast+
  then show ?thesis by (simp add: list_stmt_def Let_def)
qed

text \<open>
  Claim C3 (fails on the code). Of the three patents of the scenario one is a utility
  model; the listing for \<open>kind = 2\<close> returns that one item and the total 3, the count
  of the whole table.
\<close>

theorem get_patents_list_total_ignores_kind:
  "get_patents_list scenario_store 1 10 (Some 2) None =
     Inr \<lparr>total_of = 3,
          items = [\<lparr>item_patent = example_patent 2 3 False None 6,
                    patent_holders =
                      [\<lparr>holder_tax_number = [0x37], holder_full_name = None\<rparr>]\<rparr>]\<rparr>"
  by code_simp

text \<open>
  What the filtered listing does return: every listed patent has an ownership whose tax
  number is in the filter's list, so a patent without an owner in the filter is left out.
\<close>

lemma set_group_by_key: "set (group_by_key rows) \<subseteq> fst ` set rows"
proof (induction rows rule: group_by_key.induct)
  case 1
  show ?case by simp
next
  case (2 r rows)
  have "set (group_by_key
          [r' \<leftarrow> rows. \<not> (kind (fst r') = kind (fst r) \<and> reg_number (fst r') = reg_number (fst r))])
        \<subseteq> fst ` set rows"
    using "2.IH" by auto
  then show ?case by auto
qed

lemma patent_outerjoin_ownership_owns:
  assumes "(p, Some ow) \<in> set (patent_outerjoin_ownership session)"
  shows "ow \<in> set (ownerships session) \<and> owns ow p"
proof -
  from assms obtain p' where
    "(p, Some ow) \<in> set (case ownerships_of session p' of [] \<Rightarrow> [(p', None)]
                           | x # xs \<Rightarrow> map (\<lambda>ow. (p', Some ow)) (x # xs))"
    by (auto simp: patent_outerjoin_ownership_def)
  then have "ow \<in> set (ownerships_of session p)"
    by (cases "ownerships_of session p'") auto
  then show ?thesis by (simp add: ownerships_of_def)
qed

lemma outerjoin_person_row:
  assumes "(p, ow_opt, Some q) \<in> set (outerjoin_person session rows)"
  shows "\<exists>ow. ow_opt = Some ow \<and> (p, Some ow) \<in> set rows \<and> tax_number q = person_tax_number ow"
proof -
  from assms obtain p' o' where row: "(p', o') \<in> set rows"
    and mem: "(p, ow_opt, Some q) \<in> set (case o' of None \<Rightarrow> [(p', None, None)]
         | Some ow \<Rightarrow>
             (case [q \<leftarrow> persons session. tax_number q = person_tax_number ow] of
                [] \<Rightarrow> [(p', Some ow, None)]
              | x # xs \<Rightarrow> map (\<lambda>q. (p', Some ow, Some q)) (x # xs)))"
    by (auto simp: outerjoin_person_def)
  show ?thesis
  proof (cases o')
    case None
    with mem show ?thesis by simp
  next
    case (Some ow)
    let ?qs = "[q \<leftarrow> persons session. tax_number q = person_tax_number ow]"
    from mem Some have "p = p' \<and> ow_opt = Some ow \<and> q \<in> set ?qs"
      by (cases ?qs) auto
    with row Some show ?thesis by auto
  qed
qed

lemma filter_list_stmt_owner:
  assumes "p \<in> set (filter_list_stmt session skip pagesize tax_numbers)"
  shows "\<exists>ow \<in> set (ownerships session). owns ow p \<and> person_tax_number ow \<in> set tax_numbers"
proof -
  let ?joined = "outerjoin_person session (patent_outerjoin_ownership session)"
  let ?filtered = "[r \<leftarrow> ?joined.
                     (case snd (snd r) of None \<Rightarrow> False
                      | Some q \<Rightarrow> tax_number q \<in> set tax_numbers)]"
  from assms have "p \<in> set (group_by_key ?filtered)"
    by (auto simp: filter_list_stmt_def Let_def dest: in_set_takeD in_set_dropD)
  with set_group_by_key have "p \<in> fst ` set ?filtered" by blast
  then obtain ow_opt q where "(p, ow_opt, Some q) \<in> set ?joined"
    and q: "tax_number q \<in> set tax_numbers"
    by (auto split: option.splits)
  from outerjoin_person_row [OF this(1)] obtain ow
    where "(p, Some ow) \<in> set (patent_outerjoin_ownership session)"
      and "tax_number q = person_tax_number ow" by blast
  with q patent_outerjoin_ownership_owns show ?thesis by metis
qed

lemma get_patents_list_with_filter_excludes:
  assumes "get_patents_list_with_filter session page pagesize fid = Inr r"
    and "it \<in> set (items r)"
  shows "\<exists>ow \<in> set (ownerships session).
           owns ow (item_patent it) \<and>
           person_tax_number ow \<in> set (tax_numbers_stmt session fid)"
proof -
  from get_patents_list_with_filter_Inr [OF assms(1)] build_items_patents
  have "map item_patent (items r) =
          filter_list_stmt session (nat ((page - 1) * pagesize)) (nat pagesize)
            (tax_numbers_stmt session fid)"
    by blast
  moreover from assms(2) have "item_patent it \<in> set (map item_patent (items r))" by simp
  ultimately show ?thesis using filter_list_stmt_owner by metis
qed

text \<open>
  Claim C8 (fails on the code). One patent has two owners and both are in filter 4: the
  filtered listing returns the patent once and the total 2, the number of its ownership
  rows in the filter.
\<close>

theorem get_patents_list_with_filter_total_counts_pairs:
  "get_patents_list_with_filter two_owner_store 1 10 4 =
     Inr \<lparr>total_of = 2,
          items = [\<lparr>item_patent = example_patent 1 100 True (Some RU) 1,
                    patent_holders =
                      [\<lparr>holder_tax_number = [0x31], holder_full_name = None\<rparr>,
                       \<lparr>holder_tax_number = [0x32], holder_full_name = None\<rparr>]\<rparr>]\<rparr>"
  by code_simp

subsection \<open>Repeated calls\<close>




















subsection \<open>The rows behind a page\<close>





























section \<open>Properties of the writes\<close>

lemma no_dangling_upsert_patent:
  "no_dangling session \<Longrightarrow> no_dangling (upsert_patent p session)"
  unfolding no_dangling_def upsert_patent_def owns_def
  by (simp) (metis)

lemma no_dangling_upsert_person:
  "no_dangling session \<Longrightarrow> no_dangling (upsert_person q session)"
  unfolding no_dangling_def upsert_person_def
  by (simp) (metis)

lemma no_dangling_add_ownership:
  "no_dangling session \<Longrightarrow> add_ownership ow session = Inr session' \<Longrightarrow> no_dangling session'"
  unfolding no_dangling_def add_ownership_def
  by (auto split: if_splits)

lemma no_dangling_delete_person:
  "no_dangling session \<Longrightarrow> no_dangling (delete_person tn session)"
  unfolding no_dangling_def delete_person_def
  by simp metis

lemma no_dangling_delete_patent:
  "no_dangling session \<Longrightarrow> no_dangling (delete_patent k r session)"
  unfolding no_dangling_def delete_patent_def owns_def
  by simp metis

lemma no_dangling_apply_op:
  "no_dangling session \<Longrightarrow> no_dangling (apply_op x session)"
proof (cases x)
  case (AddOwnership ow)
  assume inv: "no_dangling session"
  show ?thesis
  proof (cases "add_ownership ow session")
    case (Inl e)
    with AddOwnership inv show ?thesis by simp
  next
    case (Inr session')
    with AddOwnership inv no_dangling_add_ownership show ?thesis by simp
  qed
qed (simp_all add: no_dangling_upsert_patent no_dangling_upsert_person
       no_dangling_delete_person no_dangling_delete_patent)

lemma no_dangling_run_ops:
  "no_dangling session \<Longrightarrow> no_dangling (run_ops xs session)"
  by (induction xs arbitrary: session) (simp_all add: no_dangling_apply_op)

lemma no_dangling_empty_store: "no_dangling empty_store"
  by (simp add: no_dangling_def empty_store_def)

text \<open>
  Claim C9. After a person is deleted no ownership row with that tax number remains, and
  after a patent is deleted no ownership row with that key remains; a store without a
  dangling ownership has none after either delete, and every store reached from the empty
  one by upserts, ownership writes and deletes has none.
\<close>

theorem cascade_no_dangling:
  "[ow \<leftarrow> ownerships (delete_person tn session). person_tax_number ow = tn] = [] \<and>
   [ow \<leftarrow> ownerships (delete_patent k r session).
      patent_kind ow = k \<and> patent_reg_number ow = r] = [] \<and>
   (no_dangling session \<longrightarrow>
      no_dangling (delete_person tn session) \<and> no_dangling (delete_patent k r session)) \<and>
   no_dangling (run_ops xs empty_store)"
proof -
  have "[ow \<leftarrow> ownerships (delete_person tn session). person_tax_number ow = tn] = []"
    by (simp add: delete_person_def filter_empty_conv)
  moreover have "[ow \<leftarrow> ownerships (delete_patent k r session).
      patent_kind ow = k \<and> patent_reg_number ow = r] = []"
    by (simp add: delete_patent_def filter_empty_conv)
  ultimately show ?thesis
    using no_dangling_delete_person no_dangling_delete_patent
      no_dangling_run_ops [OF no_dangling_empty_store]
    by blast
qed

theorem cascade_no_dangling_witness:
  "run_ops two_owner_requests empty_store = two_owner_store\<lparr>filter_tax_numbers := []\<rparr> \<and>
   no_dangling (run_ops two_owner_requests empty_store) \<and>
   ownerships (delete_person [0x31] (run_ops two_owner_requests empty_store)) =
     [example_ownership 1 100 [0x32]] \<and>
   no_dangling (delete_person [0x31] (run_ops two_owner_requests empty_store)) \<and>
   ownerships (delete_patent 1 100 (run_ops two_owner_requests empty_store)) = [] \<and>
   no_dangling (delete_patent 1 100 (run_ops two_owner_requests empty_store)) \<and>
   ownerships (run_ops (two_owner_requests @ [DeletePerson [0x31]]) empty_store) =
     [example_ownership 1 100 [0x32]] \<and>
   no_dangling (run_ops (two_owner_requests @ [DeletePerson [0x31]]) empty_store)"
proof -
  have run: "run_ops two_owner_requests empty_store = two_owner_store\<lparr>filter_tax_numbers := []\<rparr>"
    by code_simp
  have a: "ownerships (delete_person [0x31] (run_ops two_owner_requests empty_store)) =
     [example_ownership 1 100 [0x32]]"
    by code_simp
  have b: "ownerships (delete_patent 1 100 (run_ops two_owner_requests empty_store)) = []"
    by code_simp
  have c: "ownerships (run_ops (two_owner_requests @ [DeletePerson [0x31]]) empty_store) =
     [example_ownership 1 100 [0x32]]"
    by code_simp
  note t1 = cascade_no_dangling [of "[0x31]" "run_ops two_owner_requests empty_store" 1 100
      two_owner_requests]
  note t2 = cascade_no_dangling [of "[0x31]" "run_ops two_owner_requests empty_store" 1 100
      "two_owner_requests @ [DeletePerson [0x31]]"]
  from t1 have nd: "no_dangling (run_ops two_owner_requests empty_store)" by blast
  with t1 have "no_dangling (delete_person [0x31] (run_ops two_owner_requests empty_store))"
    and "no_dangling (delete_patent 1 100 (run_ops two_owner_requests empty_store))"
    by blast+
  moreover from t2
  have "no_dangling (run_ops (two_owner_requests @ [DeletePerson [0x31]]) empty_store)" by blast
  ultimately show ?thesis using run a b c nd by blast
qed

end
